theory Spec2Isabelle
  imports Main
begin

section \<open>Python values, errors and messages\<close>

text \<open>
  The model covers \<^verbatim>\<open>tmt/steps/execute/__init__.py\<close> (the Execute step and the
  ExecutePlugin result checks) and \<^verbatim>\<open>tmt/steps/report/__init__.py\<close> (the Report
  step). Exceptions are values of \<open>error\<close>; a method that can raise returns a sum,
  with \<open>Inl\<close> for the exception. Text is ASCII: a \<open>string\<close> is a list of 8-bit
  characters.
\<close>

datatype error =
    SpecificationError string
  | ExecuteError string
  | FileError string
  | IndexError
  | KeyError string
  | AssertionError

datatype message =
    Info string string
  | Debug string
  | Warn string

datatype pyval = PyStr string | PyInt int | PyBool bool | PyNone

text \<open>A Python dict keeps insertion order; storing under a key that is present keeps the
  key's position and replaces its value.\<close>

type_synonym ('k, 'v) dict = "('k \<times> 'v) list"

fun dict_set :: "'k \<Rightarrow> 'v \<Rightarrow> ('k, 'v) dict \<Rightarrow> ('k, 'v) dict" where
  "dict_set k v [] = [(k, v)]"
| "dict_set k v ((k', v') # d) =
     (if k' = k then (k, v) # d else (k', v') # dict_set k v d)"

text \<open>\<^verbatim>\<open>dict(pairs)\<close>: the pairs are stored from left to right.\<close>

definition dict_of :: "('k \<times> 'v) list \<Rightarrow> ('k, 'v) dict" where
  "dict_of pairs = foldl (\<lambda>d (k, v). dict_set k v d) [] pairs"

definition NL :: char where
  "NL = CHR 0x0A"

definition QUOTE :: char where
  "QUOTE = CHR 0x27"


section \<open>Tests and results\<close>

text \<open>The attributes of \<^verbatim>\<open>tmt.Test\<close> that the execute plugin reads.\<close>

record test =
  test_name :: string
  test_duration :: string
  returncode :: int
  real_duration :: "string option"
  test_result :: string

datatype log = LogStr string | LogList "string list"

text \<open>The \<^verbatim>\<open>data\<close> dictionary handed to \<^verbatim>\<open>tmt.Result\<close>: its keys are
  \<^verbatim>\<open>result\<close>, \<^verbatim>\<open>log\<close>, \<^verbatim>\<open>duration\<close> and, when set, \<^verbatim>\<open>note\<close> (the field \<open>data_note\<close>).\<close>

record result_data =
  result :: string
  log :: log
  duration :: "string option"
  data_note :: "string option"

text \<open>
  The class \<^verbatim>\<open>tmt.Result\<close> is not part of the two modules. A result object is
  represented by the arguments of its constructor call \<^verbatim>\<open>tmt.Result(data, name, interpret)\<close>;
  \<open>res_interpret\<close> is \<open>None\<close> when the call leaves the third argument out.
\<close>

datatype Result = Result (res_data: result_data) (res_name: string) (res_interpret: "string option")

definition TEST_DATA :: string where
  "TEST_DATA = ''data''"

definition DEFAULT_FRAMEWORK :: string where
  "DEFAULT_FRAMEWORK = ''shell''"

definition TEST_OUTPUT_FILENAME :: string where
  "TEST_OUTPUT_FILENAME = ''output.txt''"

text \<open>Modelled from the spec: \<^verbatim>\<open>tmt.utils.PROCESS_TIMEOUT\<close> is defined outside the two
  modules; the spec (section 8, item 8) names exit code 124 as the timeout sentinel.\<close>

definition PROCESS_TIMEOUT :: int where
  "PROCESS_TIMEOUT = 124"

section \<open>ExecutePlugin: paths and result checks\<close>

text \<open>
  What a plugin sees of its surroundings: the step's working directory (\<open>None\<close> before
  it exists) and the two \<^verbatim>\<open>os.path\<close> functions it calls, which belong to the Python
  library and stay parameters.
\<close>

record plugin_env =
  workdir :: "string option"
  os_path_join :: "string list \<Rightarrow> string"
  os_path_relpath :: "string \<Rightarrow> string \<Rightarrow> string"

text \<open>The files on disk, by full or relative path as the plugin names them.\<close>

type_synonym files = "string \<Rightarrow> string option"

definition lstrip :: "char \<Rightarrow> string \<Rightarrow> string" where
  "lstrip c s = dropWhile (\<lambda>x. x = c) s"

text \<open>\<^verbatim>\<open>data_path(test, filename, full)\<close> with \<^verbatim>\<open>create=False\<close>, as both result
  checks and the timeout hint call it.\<close>

definition data_path :: "plugin_env \<Rightarrow> test \<Rightarrow> string option \<Rightarrow> bool \<Rightarrow> error + string" where
  "data_path env t filename full =
     (case workdir env of
        None \<Rightarrow> Inl AssertionError
      | Some w \<Rightarrow>
          (let directory = os_path_join env [w, TEST_DATA, lstrip (CHR ''/'') (test_name t)] in
           case filename of
             None \<Rightarrow> Inr directory
           | Some f \<Rightarrow>
               (if f = [] then Inr directory
                else let path = os_path_join env [directory, f]
                     in Inr (if full then path else os_path_relpath env path w))))"

text \<open>Modelled from the spec: \<^verbatim>\<open>self.write(path, text, mode='a')\<close> is inherited from
  outside the two modules; by the spec (section 4.4) the file is opened for append, so the
  text is added at the end of the file, which is created when absent.\<close>

definition write_append :: "files \<Rightarrow> string \<Rightarrow> string \<Rightarrow> files" where
  "write_append fs path txt =
     fs(path \<mapsto> (case fs path of None \<Rightarrow> txt | Some old \<Rightarrow> old @ txt))"

definition timeout_message :: "test \<Rightarrow> string" where
  "timeout_message t =
     [NL] @ ''Maximum test time '' @ [QUOTE] @ test_duration t @ [QUOTE] @ '' exceeded.'' @ [NL]
     @ ''Adjust the test '' @ [QUOTE] @ ''duration'' @ [QUOTE] @ '' attribute if necessary.'' @ [NL]
     @ ''https://tmt.readthedocs.io/en/stable/spec/tests.html#duration'' @ [NL]"

definition timeout_hint :: "plugin_env \<Rightarrow> test \<Rightarrow> files \<Rightarrow> error + files" where
  "timeout_hint env t fs =
     (case data_path env t (Some TEST_OUTPUT_FILENAME) True of
        Inl e \<Rightarrow> Inl e
      | Inr output \<Rightarrow> Inr (write_append fs output (timeout_message t)))"

definition check_shell :: "plugin_env \<Rightarrow> test \<Rightarrow> files \<Rightarrow> error + (Result \<times> files)" where
  "check_shell env t fs =
     (case data_path env t (Some TEST_OUTPUT_FILENAME) False of
        Inl e \<Rightarrow> Inl e
      | Inr logpath \<Rightarrow>
          (let data = \<lparr>result = [], log = LogStr logpath, duration = real_duration t, data_note = None\<rparr> in
           if returncode t = 0 then
             Inr (Result (data\<lparr>result := ''pass''\<rparr>) (test_name t) (Some (test_result t)), fs)
           else if returncode t = 1 then
             Inr (Result (data\<lparr>result := ''fail''\<rparr>) (test_name t) (Some (test_result t)), fs)
           else if returncode t = PROCESS_TIMEOUT then
             (case timeout_hint env t fs of
                Inl e \<Rightarrow> Inl e
              | Inr fs' \<Rightarrow>
                  Inr (Result (data\<lparr>result := ''error'', data_note := Some ''timeout''\<rparr>)
                         (test_name t) (Some (test_result t)), fs'))
           else
             Inr (Result (data\<lparr>result := ''error''\<rparr>) (test_name t) (Some (test_result t)), fs)))"

subsection \<open>The two regular expressions of the beakerlib check\<close>







subsection \<open>What the two patterns find, by positions in the text\<close>








subsection \<open>check_beakerlib\<close>



section \<open>Steps\<close>

text \<open>
  Modelled from the spec: the base class \<^verbatim>\<open>tmt.steps.Step\<close> is not part of the two
  modules; the spec (section 3) lists its attributes. The attributes
  that the modules read and write are the fields of \<open>step\<close>: the status (\<open>None\<close>
  while unset, else \<open>todo\<close> or \<open>done\<close>), the configuration records, the phases and
  the messages printed so far. \<^verbatim>\<open>self.status()\<close> reads the field and
  \<^verbatim>\<open>self.status(value)\<close> stores it.
\<close>

record 'p step =
  status :: "string option"
  data :: "(string, pyval) dict list"
  phases :: "'p list"
  out :: "message list"

text \<open>
  The Execute step adds its results, its scripts and its default framework. The file
  \<^verbatim>\<open>results.yaml\<close> of the step's working directory is \<open>results_yaml\<close>: \<open>None\<close>
  when there is no such file to read.

  Modelled from the spec: \<^verbatim>\<open>tmt.utils.dict_to_yaml\<close>, \<^verbatim>\<open>tmt.utils.yaml_to_dict\<close>
  and \<^verbatim>\<open>tmt.Result.export\<close> are defined outside the two modules. By the spec
  (section 6) the store is a mapping from test name to a record of result, log, duration
  and note that is read back verbatim, so the file's text is represented by the mapping
  it encodes, and the exported record of a result is its data.
\<close>

record 'p execute = "'p step" +
  results :: "Result list"
  scripts :: "string list"
  framework :: string
  results_yaml :: "(string, result_data) dict option"

definition export :: "Result \<Rightarrow> result_data" where
  "export r = res_data r"

text \<open>
  What the Execute step calls and does not define: the methods it inherits from
  \<^verbatim>\<open>Step\<close> (\<open>Step_wake\<close>, \<open>Step_go\<close>, \<open>Step_load\<close>, \<open>Step_save\<close>,
  \<open>actions\<close>), the plan (\<open>my_run\<close>, its name, the provisioned \<open>guests\<close>), the
  plugin resolution \<^verbatim>\<open>ExecutePlugin.delegate\<close>, the methods of a phase, and
  \<^verbatim>\<open>fmf.utils.listed\<close>. They are parameters; a phase's \<open>go\<close> changes the phase.
\<close>

record ('p, 'g) execute_env =
  my_run :: bool
  plan_name :: string
  guests :: "'g list"
  Step_wake :: "'p execute \<Rightarrow> 'p execute"
  Step_go :: "'p execute \<Rightarrow> 'p execute"
  Step_load :: "'p execute \<Rightarrow> 'p execute"
  Step_save :: "'p execute \<Rightarrow> 'p execute"
  actions :: "'p execute \<Rightarrow> 'p execute"
  delegate :: "'p execute \<Rightarrow> (string, pyval) dict \<Rightarrow> error + 'p"
  plugin_wake :: "'p \<Rightarrow> 'p"
  enabled_on_guest :: "'p \<Rightarrow> 'g \<Rightarrow> bool"
  phase_go :: "'p \<Rightarrow> 'g \<Rightarrow> 'p"
  phase_results :: "'p \<Rightarrow> Result list"
  is_ExecutePlugin :: "'p \<Rightarrow> bool"
  phase_requires :: "'p \<Rightarrow> string list"
  listed :: "Result list \<Rightarrow> string \<Rightarrow> string"

definition emit :: "message \<Rightarrow> ('p, 'z) step_scheme \<Rightarrow> ('p, 'z) step_scheme" where
  "emit m s = s\<lparr>out := out s @ [m]\<rparr>"

subsection \<open>Mapping the old methods\<close>

text \<open>\<^verbatim>\<open>re.search(r"^(shell|beakerlib)(\.tmt)?$", how)\<close>, giving the first group. The
  dollar also matches before a newline that ends the string.\<close>

definition match_old_method :: "string \<Rightarrow> string option" where
  "match_old_method how =
     (let h = (if how \<noteq> [] \<and> last how = NL then butlast how else how)
      in if h = ''shell'' \<or> h = ''shell.tmt'' then Some ''shell''
         else if h = ''beakerlib'' \<or> h = ''beakerlib.tmt'' then Some ''beakerlib''
         else None)"

definition map_old_methods :: "'p execute \<Rightarrow> (error \<times> 'p execute) + 'p execute" where
  "map_old_methods s =
     (case data s of
        [] \<Rightarrow> Inl (IndexError, s)
      | d # ds \<Rightarrow>
          (case map_of d ''how'' of
             None \<Rightarrow> Inl (KeyError ''how'', s)
           | Some (PyStr how) \<Rightarrow>
               (case match_old_method how of
                  None \<Rightarrow> Inr s
                | Some matched \<Rightarrow>
                    (let s1 = emit (Warn (''The '' @ [QUOTE] @ how @ [QUOTE]
                                 @ '' execute method has been deprecated.'')) s;
                         s2 = emit (Warn (''Use '' @ [QUOTE] @ ''how: tmt'' @ [QUOTE]
                                 @ '' in the execute step instead (L2).'')) s1;
                         s3 = s2\<lparr>data := dict_set ''how'' (PyStr ''tmt'') d # ds\<rparr>;
                         s4 = emit (Warn (''Set '' @ [QUOTE] @ ''framework: '' @ matched @ [QUOTE]
                                 @ '' in test metadata (L1).'')) s3;
                         s5 = s4\<lparr>framework := matched\<rparr>
                     in Inr (emit (Warn ''Support for old methods will be dropped in tmt-2.0.'') s5)))
           | Some _ \<Rightarrow> Inl (AssertionError, s)))"

subsection \<open>Execute\<close>

text \<open>\<^verbatim>\<open>Execute.__init__\<close>: the argument is the step as \<^verbatim>\<open>super().__init__\<close>
  leaves it.\<close>

definition Execute_init :: "('p, 'g) execute_env \<Rightarrow> 'p execute \<Rightarrow> (error \<times> 'p execute) + 'p execute" where
  "Execute_init env s0 =
     (let s = s0\<lparr>results := [], scripts := [], framework := DEFAULT_FRAMEWORK\<rparr>
      in if \<not> my_run env then map_old_methods s else Inr s)"

text \<open>\<^verbatim>\<open>self.read('results.yaml')\<close> raises FileError when the file cannot be read.\<close>

definition read_results :: "'p execute \<Rightarrow> error + (string, result_data) dict" where
  "read_results s =
     (case results_yaml s of
        None \<Rightarrow> Inl (FileError ''results.yaml'')
      | Some d \<Rightarrow> Inr d)"

definition Execute_load :: "('p, 'g) execute_env \<Rightarrow> 'p execute \<Rightarrow> (error \<times> 'p execute) + 'p execute" where
  "Execute_load env s =
     (let s1 = Step_load env s in
      case read_results s1 of
        Inr d \<Rightarrow> Inr (s1\<lparr>results := map (\<lambda>(test, dat). Result dat test None) d\<rparr>)
      | Inl (FileError f) \<Rightarrow> Inr (emit (Debug ''Test results not found.'') s1)
      | Inl e \<Rightarrow> Inl (e, s1))"

definition Execute_save :: "('p, 'g) execute_env \<Rightarrow> 'p execute \<Rightarrow> 'p execute" where
  "Execute_save env s =
     (let s1 = Step_save env s;
          d = dict_of (map (\<lambda>r. (res_name r, export r)) (results s1))
      in s1\<lparr>results_yaml := Some d\<rparr>)"

definition Execute_wake :: "('p, 'g) execute_env \<Rightarrow> 'p execute \<Rightarrow> (error \<times> 'p execute) + 'p execute" where
  "Execute_wake env s =
     (let s1 = Step_wake env s in
      if length (data s1) > 1 then
        Inl (SpecificationError (''Multiple execute steps defined in '' @ [QUOTE] @ plan_name env
               @ [QUOTE] @ ''.''), s1)
      else
        (case map_old_methods s1 of
           Inl e \<Rightarrow> Inl e
         | Inr s2 \<Rightarrow>
             (case data s2 of
                [] \<Rightarrow> Inl (IndexError, s2)
              | d # ds \<Rightarrow>
                  (case delegate env s2 d of
                     Inl e \<Rightarrow> Inl (e, s2)
                   | Inr executor \<Rightarrow>
                       (let s3 = s2\<lparr>phases := phases s2 @ [plugin_wake env executor]\<rparr> in
                        if status s3 = Some ''done'' then
                          Inr (emit (Debug ''Execute wake up complete (already done before).'') s3)
                        else Inr (Execute_save env (s3\<lparr>status := Some ''todo''\<rparr>)))))))"

definition summary_message :: "('p, 'g) execute_env \<Rightarrow> 'p execute \<Rightarrow> message" where
  "summary_message env s = Info ''summary'' (listed env (results s) ''test'' @ '' executed'')"

definition Execute_summary :: "('p, 'g) execute_env \<Rightarrow> 'p execute \<Rightarrow> 'p execute" where
  "Execute_summary env s = emit (summary_message env s) s"

text \<open>
  The loop of \<^verbatim>\<open>go\<close> over the phases for one guest, and the loop over the guests
  around it. They return the phases as the calls of \<^verbatim>\<open>phase.go(guest)\<close> leave them,
  and the results list.
\<close>

fun run_phases ::
  "('p, 'g) execute_env \<Rightarrow> 'g \<Rightarrow> 'p list \<Rightarrow> Result list \<Rightarrow> 'p list \<times> Result list" where
  "run_phases env g [] rs = ([], rs)"
| "run_phases env g (p # ps) rs =
     (if enabled_on_guest env p g then
        (let p' = phase_go env p g;
             rs' = (if is_ExecutePlugin env p' then rs @ phase_results env p' else rs)
         in case run_phases env g ps rs' of
              (ps', rs'') \<Rightarrow> (p' # ps', rs''))
      else
        (case run_phases env g ps rs of
           (ps', rs'') \<Rightarrow> (p # ps', rs'')))"

fun run_guests ::
  "('p, 'g) execute_env \<Rightarrow> 'g list \<Rightarrow> 'p list \<Rightarrow> Result list \<Rightarrow> 'p list \<times> Result list" where
  "run_guests env [] ps rs = (ps, rs)"
| "run_guests env (g # gs) ps rs =
     (case run_phases env g ps rs of
        (ps1, rs1) \<Rightarrow> run_guests env gs ps1 rs1)"

definition Execute_go :: "('p, 'g) execute_env \<Rightarrow> 'p execute \<Rightarrow> (error \<times> 'p execute) + 'p execute" where
  "Execute_go env s =
     (let s1 = Step_go env s in
      if status s1 = Some ''done'' then
        Inr (actions env (Execute_summary env (emit (Info ''status'' ''done'') s1)))
      else if guests env = [] then
        Inl (ExecuteError ''No guests available for execution.'', s1)
      else
        (case run_guests env (guests env) (phases s1) (results s1) of
           (ps, rs) \<Rightarrow>
             (let s2 = s1\<lparr>phases := ps, results := rs\<rparr>;
                  s3 = Execute_summary env s2;
                  s4 = s3\<lparr>status := Some ''done''\<rparr>
              in Inr (Execute_save env s4))))"

text \<open>
  A Python set is kept as a list without duplicates. Python leaves the order in which
  \<^verbatim>\<open>list(requires)\<close> lists the elements open; the model lists them in the order of
  their first insertion, and no property below speaks of that order.
\<close>

definition set_add :: "'a \<Rightarrow> 'a list \<Rightarrow> 'a list" where
  "set_add x xs = (if x \<in> set xs then xs else xs @ [x])"

definition set_update :: "'a list \<Rightarrow> 'a list \<Rightarrow> 'a list" where
  "set_update xs new = foldl (\<lambda>acc x. set_add x acc) xs new"

definition Execute_requires :: "('p, 'g) execute_env \<Rightarrow> 'p execute \<Rightarrow> string list" where
  "Execute_requires env s =
     foldl (\<lambda>requires plugin. set_update requires (phase_requires env plugin)) []
       (filter (is_ExecutePlugin env) (phases s))"

subsection \<open>Report\<close>

text \<open>
  The Report step reads the results of the plan's Execute step, so it runs on the two
  steps together. What it inherits from \<^verbatim>\<open>Step\<close>, the methods of its phases and
  \<^verbatim>\<open>tmt.base.Result.summary\<close> are parameters.
\<close>

record ('p, 'q) plan =
  plan_execute :: "'p execute"
  plan_report :: "'q step"

record ('p, 'q) report_env =
  report_Step_go :: "('p, 'q) plan \<Rightarrow> ('p, 'q) plan"
  report_Step_save :: "('p, 'q) plan \<Rightarrow> ('p, 'q) plan"
  report_actions :: "('p, 'q) plan \<Rightarrow> ('p, 'q) plan"
  report_phase_go :: "'q \<Rightarrow> ('p, 'q) plan \<Rightarrow> ('p, 'q) plan"
  is_ReportPlugin :: "'q \<Rightarrow> bool"
  report_phase_requires :: "'q \<Rightarrow> string list"
  Result_summary :: "Result list \<Rightarrow> string"

definition report_emit :: "message \<Rightarrow> ('p, 'q) plan \<Rightarrow> ('p, 'q) plan" where
  "report_emit m pl = pl\<lparr>plan_report := emit m (plan_report pl)\<rparr>"

definition report_summary_message :: "('p, 'q) report_env \<Rightarrow> ('p, 'q) plan \<Rightarrow> message" where
  "report_summary_message env pl = Info ''summary'' (Result_summary env (results (plan_execute pl)))"

definition Report_summary :: "('p, 'q) report_env \<Rightarrow> ('p, 'q) plan \<Rightarrow> ('p, 'q) plan" where
  "Report_summary env pl = report_emit (report_summary_message env pl) pl"

definition Report_go :: "('p, 'q) report_env \<Rightarrow> ('p, 'q) plan \<Rightarrow> ('p, 'q) plan" where
  "Report_go env pl =
     (let pl1 = report_Step_go env pl in
      if status (plan_report pl1) = Some ''done'' then
        report_actions env (Report_summary env (report_emit (Info ''status'' ''done'') pl1))
      else
        (let pl2 = foldl (\<lambda>acc phase. report_phase_go env phase acc) pl1 (phases (plan_report pl1));
             pl3 = Report_summary env pl2;
             pl4 = pl3\<lparr>plan_report := (plan_report pl3)\<lparr>status := Some ''done''\<rparr>\<rparr>
         in report_Step_save env pl4))"

definition Report_requires :: "('p, 'q) report_env \<Rightarrow> ('p, 'q) plan \<Rightarrow> string list" where
  "Report_requires env pl =
     foldl (\<lambda>requires plugin. set_update requires (report_phase_requires env plugin)) []
       (filter (is_ReportPlugin env) (phases (plan_report pl)))"

subsection \<open>What an inherited method leaves alone\<close>

definition leaves_status :: "('p execute \<Rightarrow> 'p execute) \<Rightarrow> bool" where
  "leaves_status f = (\<forall>s. status (f s) = status s)"

definition leaves_results :: "('p execute \<Rightarrow> 'p execute) \<Rightarrow> bool" where
  "leaves_results f = (\<forall>s. results (f s) = results s)"

definition leaves_store :: "('p execute \<Rightarrow> 'p execute) \<Rightarrow> bool" where
  "leaves_store f = (\<forall>s. results_yaml (f s) = results_yaml s)"

definition leaves_execute :: "(('p, 'q) plan \<Rightarrow> ('p, 'q) plan) \<Rightarrow> bool" where
  "leaves_execute f = (\<forall>pl. plan_execute (f pl) = plan_execute pl)"

definition leaves_report_status :: "(('p, 'q) plan \<Rightarrow> ('p, 'q) plan) \<Rightarrow> bool" where
  "leaves_report_status f = (\<forall>pl. status (plan_report (f pl)) = status (plan_report pl))"

definition frame :: "('p execute \<Rightarrow> 'p execute) \<Rightarrow> bool" where
  "frame f = (leaves_status f \<and> leaves_results f \<and> leaves_store f)"

definition report_frame :: "(('p, 'q) plan \<Rightarrow> ('p, 'q) plan) \<Rightarrow> bool" where
  "report_frame f = (leaves_execute f \<and> leaves_report_status f)"

text \<open>Whether a phase is enabled on a guest does not change when the phase runs.\<close>

definition enabled_stable :: "('p, 'g) execute_env \<Rightarrow> bool" where
  "enabled_stable env =
     (\<forall>p g g'. enabled_on_guest env (phase_go env p g') g = enabled_on_guest env p g)"

subsection \<open>The calls that go makes, stated apart from its loops\<close>

text \<open>
  To compare the loops with: \<open>phase_after\<close> is a phase after the guests \<open>gs\<close>, in
  their order, each running it once if it is enabled there; \<open>returned\<close> is what one call
  of \<^verbatim>\<open>phase.go(guest)\<close> on a phase adds to the step's results (the phase's results when
  it is an execute plugin); \<open>invocations\<close> lists, guest by guest in the order of the
  guests and phase by phase in the order of the phases, one entry for each phase enabled
  on the guest when its turn comes: the guest, the phase as it was, and what the call
  returned.
\<close>

definition phase_after :: "('p, 'g) execute_env \<Rightarrow> 'p \<Rightarrow> 'g list \<Rightarrow> 'p" where
  "phase_after env p gs =
     foldl (\<lambda>q g. if enabled_on_guest env q g then phase_go env q g else q) p gs"



section \<open>Concrete inputs\<close>

text \<open>A working directory with POSIX-style joining of path parts, and tests to run the
  checks on.\<close>

definition penv0 :: plugin_env where
  "penv0 = \<lparr>workdir = Some ''/run/execute'',
            os_path_join = (\<lambda>parts. foldr (\<lambda>p acc. if acc = [] then p else p @ ''/'' @ acc) parts []),
            os_path_relpath = (\<lambda>path start. drop (Suc (length start)) path)\<rparr>"

definition test_timeout :: test where
  "test_timeout = \<lparr>test_name = ''/smoke'', test_duration = ''5m'', returncode = 124,
                   real_duration = Some ''00:05:00'', test_result = ''respect''\<rparr>"

definition test_passed :: test where
  "test_passed = \<lparr>test_name = ''/smoke'', test_duration = ''5m'', returncode = 0,
                  real_duration = Some ''00:00:07'', test_result = ''respect''\<rparr>"



definition test_failed :: test where
  "test_failed = \<lparr>test_name = ''/smoke'', test_duration = ''5m'', returncode = 1,
                  real_duration = Some ''00:00:03'', test_result = ''respect''\<rparr>"

definition test_broken :: test where
  "test_broken = \<lparr>test_name = ''/smoke'', test_duration = ''5m'', returncode = 2,
                  real_duration = Some ''00:00:03'', test_result = ''respect''\<rparr>"

definition files_output :: files where
  "files_output = [''/run/execute/data/smoke/output.txt'' \<mapsto> ''begin'' @ [CHR 0x0A]]"





text \<open>A plugin with its method, whether it is an execute plugin, the guest it is
  limited to, its required packages and the results of its last run; two guests; inherited
  methods that only print the step's header.\<close>

datatype plugin =
  Plugin (plugin_how: string) (plugin_is_execute: bool) (plugin_where: "string option")
    (plugin_requires: "string list") (plugin_results: "Result list")

definition passed :: "string \<Rightarrow> Result" where
  "passed n = Result \<lparr>result = ''pass'', log = LogStr (n @ ''/output.txt''),
                      duration = Some ''00:00:01'', data_note = None\<rparr> n None"

definition timed_out :: "string \<Rightarrow> Result" where
  "timed_out n = Result \<lparr>result = ''error'', log = LogList [n @ ''/output.txt'', n @ ''/journal.txt''],
                         duration = Some ''00:05:00'', data_note = Some ''timeout''\<rparr> n (Some ''respect'')"

definition env0 :: "(plugin, string) execute_env" where
  "env0 = \<lparr>my_run = True, plan_name = ''/plans/basic'', guests = [''client'', ''server''],
           Step_wake = (\<lambda>s. s), Step_go = emit (Info ''execute'' []),
           Step_load = (\<lambda>s. s), Step_save = (\<lambda>s. s), actions = (\<lambda>s. s),
           delegate = (\<lambda>s d. case map_of d ''how'' of
                          Some (PyStr h) \<Rightarrow>
                            if h = ''tmt'' then Inr (Plugin h True None [''beakerlib''] [])
                            else Inl (SpecificationError ''Unsupported execute method.'')
                        | _ \<Rightarrow> Inl (SpecificationError ''Unsupported execute method.'')),
           plugin_wake = (\<lambda>p. p),
           enabled_on_guest = (\<lambda>p g. case plugin_where p of None \<Rightarrow> True | Some w \<Rightarrow> w = g),
           phase_go = (\<lambda>p g. Plugin (plugin_how p) (plugin_is_execute p) (plugin_where p)
                          (plugin_requires p) [passed (g @ ''/smoke'')]),
           phase_results = plugin_results,
           is_ExecutePlugin = plugin_is_execute,
           phase_requires = plugin_requires,
           listed = (\<lambda>rs what. if length rs = 1 then ''1 '' @ what else ''some '' @ what @ ''s'')\<rparr>"

text \<open>The same surroundings when an earlier run is resumed (the inherited wake restores
  the status \<open>done\<close>), and when there is no run at all.\<close>

definition env_resume :: "(plugin, string) execute_env" where
  "env_resume = env0\<lparr>Step_wake := (\<lambda>s. s\<lparr>status := Some ''done''\<rparr>)\<rparr>"

definition env_no_run :: "(plugin, string) execute_env" where
  "env_no_run = env0\<lparr>my_run := False\<rparr>"

definition renv0 :: "(plugin, string) report_env" where
  "renv0 = \<lparr>report_Step_go = report_emit (Info ''report'' []),
            report_Step_save = (\<lambda>pl. pl),
            report_actions = (\<lambda>pl. pl),
            report_phase_go = (\<lambda>q. report_emit (Info ''how'' q)),
            is_ReportPlugin = (\<lambda>q. True),
            report_phase_requires = (\<lambda>q. if q = ''html'' then [''python3-jinja2''] else []),
            Result_summary = (\<lambda>rs. if length rs = 1 then ''1 test passed'' else ''tests passed'')\<rparr>"

definition fresh_step :: "plugin execute" where
  "fresh_step = \<lparr>status = None, data = [[(''how'', PyStr ''beakerlib'')]],
                 phases = [], out = [], results = [], scripts = [], framework = ''shell'',
                 results_yaml = None\<rparr>"

definition two_records :: "plugin execute" where
  "two_records = fresh_step\<lparr>data := [[(''how'', PyStr ''tmt'')], [(''how'', PyStr ''tmt'')]]\<rparr>"

definition done_step :: "plugin execute" where
  "done_step = \<lparr>status = Some ''done'', data = [[(''how'', PyStr ''tmt'')]],
                phases = [Plugin ''tmt'' True None [''beakerlib''] []], out = [],
                results = [passed ''/smoke''], scripts = [], framework = ''shell'',
                results_yaml = Some [(''/smoke'', res_data (passed ''/smoke''))]\<rparr>"

definition done_plan :: "(plugin, string) plan" where
  "done_plan = \<lparr>plan_execute = done_step,
                plan_report = \<lparr>status = Some ''done'', data = [[(''how'', PyStr ''display'')]],
                                phases = [''display''], out = []\<rparr>\<rparr>"

definition run_step :: "plugin execute" where
  "run_step = \<lparr>status = Some ''todo'', data = [[(''how'', PyStr ''tmt'')]],
               phases = [Plugin ''tmt'' True None [''beakerlib''] []], out = [],
               results = [passed ''/smoke'', timed_out ''/slow''], scripts = [], framework = ''shell'',
               results_yaml = None\<rparr>"

definition two_phase_step :: "plugin execute" where
  "two_phase_step = \<lparr>status = Some ''todo'', data = [[(''how'', PyStr ''tmt'')]],
               phases = [Plugin ''tmt'' True None [''beakerlib''] [],
                         Plugin ''login'' False (Some ''server'') [] []], out = [],
               results = [], scripts = [], framework = ''shell'',
               results_yaml = None\<rparr>"

definition swapped_step :: "plugin execute" where
  "swapped_step = two_phase_step\<lparr>phases := rev (phases two_phase_step)\<rparr>"



definition two_legacy_records :: "plugin execute" where
  "two_legacy_records =
     fresh_step\<lparr>data := [[(''how'', PyStr ''beakerlib'')], [(''how'', PyStr ''tmt'')]]\<rparr>"

section \<open>Properties of the result checks\<close>

lemma check_shell_no_workdir:
  "workdir env = None \<Longrightarrow> check_shell env t fs = Inl AssertionError"
  by (simp add: check_shell_def data_path_def)

text \<open>
  Claim C2. With a working directory, \<open>check_shell\<close> returns a result for every test:
  the data handed to the Result constructor has result \<open>pass\<close> for return code 0,
  \<open>fail\<close> for 1 and \<open>error\<close> for every other code; the note is \<open>timeout\<close>
  exactly when the return code is the timeout sentinel, and exactly then the test's output
  file gets, after what it held, the three lines of the hint: that the maximum test time
  (the test's duration) was exceeded, to adjust the duration attribute, and where it is
  documented. Otherwise there is no note and no file changes.
\<close>

theorem check_shell_classification:
  assumes "workdir env = Some w"
    and "output = os_path_join env
               [os_path_join env [w, ''data'', dropWhile (\<lambda>x. x = CHR ''/'') (test_name t)],
                ''output.txt'']"
  shows "\<exists>r fs'. check_shell env t fs = Inr (r, fs') \<and>
           res_name r = test_name t \<and>
           result (res_data r) =
             (if returncode t = 0 then ''pass'' else if returncode t = 1 then ''fail'' else ''error'') \<and>
           (data_note (res_data r) = Some ''timeout'') = (returncode t = PROCESS_TIMEOUT) \<and>
           (data_note (res_data r) = None) = (returncode t \<noteq> PROCESS_TIMEOUT) \<and>
           fs' = (if returncode t = PROCESS_TIMEOUT
                  then fs(output \<mapsto>
                         (case fs output of None \<Rightarrow> [] | Some old \<Rightarrow> old)
                         @ [CHR 0x0A] @ ''Maximum test time '' @ [CHR 0x27] @ test_duration t
                         @ [CHR 0x27] @ '' exceeded.'' @ [CHR 0x0A]
                         @ ''Adjust the test '' @ [CHR 0x27] @ ''duration'' @ [CHR 0x27]
                         @ '' attribute if necessary.'' @ [CHR 0x0A]
                         @ ''https://tmt.readthedocs.io/en/stable/spec/tests.html#duration''
                         @ [CHR 0x0A])
                  else fs)"
  using assms
  by (auto simp: check_shell_def timeout_hint_def data_path_def TEST_OUTPUT_FILENAME_def
      TEST_DATA_def lstrip_def PROCESS_TIMEOUT_def Let_def write_append_def timeout_message_def
      NL_def QUOTE_def split: option.split)

theorem check_shell_classification_witness:
  "(\<exists>r fs'. check_shell penv0 test_timeout files_output = Inr (r, fs') \<and>
      result (res_data r) = ''error'' \<and> data_note (res_data r) = Some ''timeout'' \<and>
      fs' ''/run/execute/data/smoke/output.txt'' =
        Some (''begin'' @ [CHR 0x0A, CHR 0x0A] @ ''Maximum test time '' @ [CHR 0x27] @ ''5m''
              @ [CHR 0x27] @ '' exceeded.'' @ [CHR 0x0A]
              @ ''Adjust the test '' @ [CHR 0x27] @ ''duration'' @ [CHR 0x27]
              @ '' attribute if necessary.'' @ [CHR 0x0A]
              @ ''https://tmt.readthedocs.io/en/stable/spec/tests.html#duration'' @ [CHR 0x0A])) \<and>
   (\<exists>r. check_shell penv0 test_passed files_output = Inr (r, files_output) \<and>
      result (res_data r) = ''pass'' \<and> data_note (res_data r) = None) \<and>
   (\<exists>r. check_shell penv0 test_failed files_output = Inr (r, files_output) \<and>
      result (res_data r) = ''fail'' \<and> data_note (res_data r) = None) \<and>
   (\<exists>r. check_shell penv0 test_broken files_output = Inr (r, files_output) \<and>
      result (res_data r) = ''error'' \<and> data_note (res_data r) = None)"
proof -
  have w: "workdir penv0 = Some ''/run/execute''" by (simp add: penv0_def)
  have o: "\<And>t. test_name t = ''/smoke'' \<Longrightarrow>
       ''/run/execute/data/smoke/output.txt'' = os_path_join penv0
               [os_path_join penv0 [''/run/execute'', ''data'', dropWhile (\<lambda>x. x = CHR ''/'') (test_name t)],
                ''output.txt'']"
    by (simp add: penv0_def)
  have n: "test_name test_timeout = ''/smoke''" "test_name test_passed = ''/smoke''"
    "test_name test_failed = ''/smoke''" "test_name test_broken = ''/smoke''"
    by (simp_all add: test_timeout_def test_passed_def test_failed_def test_broken_def)
  have a: "\<exists>r fs'. check_shell penv0 test_timeout files_output = Inr (r, fs') \<and>
      result (res_data r) = ''error'' \<and> data_note (res_data r) = Some ''timeout'' \<and>
      fs' ''/run/execute/data/smoke/output.txt'' =
        Some (''begin'' @ [CHR 0x0A, CHR 0x0A] @ ''Maximum test time '' @ [CHR 0x27] @ ''5m''
              @ [CHR 0x27] @ '' exceeded.'' @ [CHR 0x0A]
              @ ''Adjust the test '' @ [CHR 0x27] @ ''duration'' @ [CHR 0x27]
              @ '' attribute if necessary.'' @ [CHR 0x0A]
              @ ''https://tmt.readthedocs.io/en/stable/spec/tests.html#duration'' @ [CHR 0x0A])"
    using check_shell_classification [OF w o [OF n(1)], of files_output]
    by (auto simp: test_timeout_def PROCESS_TIMEOUT_def files_output_def)
  have b: "\<exists>r. check_shell penv0 test_passed files_output = Inr (r, files_output) \<and>
      result (res_data r) = ''pass'' \<and> data_note (res_data r) = None"
    using check_shell_classification [OF w o [OF n(2)], of files_output]
    by (auto simp: test_passed_def PROCESS_TIMEOUT_def)
  have c: "\<exists>r. check_shell penv0 test_failed files_output = Inr (r, files_output) \<and>
      result (res_data r) = ''fail'' \<and> data_note (res_data r) = None"
    using check_shell_classification [OF w o [OF n(3)], of files_output]
    by (auto simp: test_failed_def PROCESS_TIMEOUT_def)
  have d: "\<exists>r. check_shell penv0 test_broken files_output = Inr (r, files_output) \<and>
      result (res_data r) = ''error'' \<and> data_note (res_data r) = None"
    using check_shell_classification [OF w o [OF n(4)], of files_output]
    by (auto simp: test_broken_def PROCESS_TIMEOUT_def)
  from a b c d show ?thesis by blast
qed

subsection \<open>The search functions find the leftmost match\<close>



























section \<open>Properties of the steps\<close>

lemma env0_simps:
  "my_run env0 = True" "plan_name env0 = ''/plans/basic''" "guests env0 = [''client'', ''server'']"
  "Step_wake env0 = (\<lambda>s. s)" "Step_go env0 = emit (Info ''execute'' [])"
  "Step_load env0 = (\<lambda>s. s)" "Step_save env0 = (\<lambda>s. s)" "actions env0 = (\<lambda>s. s)"
  "plugin_wake env0 = (\<lambda>p. p)"
  "enabled_on_guest env0 = (\<lambda>p g. case plugin_where p of None \<Rightarrow> True | Some w \<Rightarrow> w = g)"
  "phase_go env0 = (\<lambda>p g. Plugin (plugin_how p) (plugin_is_execute p) (plugin_where p)
                          (plugin_requires p) [passed (g @ ''/smoke'')])"
  "phase_results env0 = plugin_results" "is_ExecutePlugin env0 = plugin_is_execute"
  "phase_requires env0 = plugin_requires"
  by (simp_all add: env0_def)

lemma frame_env0: "frame (Step_go env0)" "frame (actions env0)"
  by (simp_all add: frame_def leaves_status_def leaves_results_def leaves_store_def env0_def emit_def)

lemma report_frame_renv0: "report_frame (report_Step_go renv0)" "report_frame (report_actions renv0)"
  by (simp_all add: report_frame_def leaves_execute_def leaves_report_status_def renv0_def
      report_emit_def emit_def)

subsection \<open>A step that is done\<close>

lemma Execute_go_done:
  assumes "status s = Some ''done''" "frame (Step_go env)" "frame (actions env)"
  shows "Execute_go env s =
           Inr (actions env (emit (summary_message env s) (emit (Info ''status'' ''done'') (Step_go env s))))"
    and "status (actions env (emit (summary_message env s) (emit (Info ''status'' ''done'') (Step_go env s)))) = Some ''done''"
    and "results (actions env (emit (summary_message env s) (emit (Info ''status'' ''done'') (Step_go env s)))) = results s"
    and "results_yaml (actions env (emit (summary_message env s) (emit (Info ''status'' ''done'') (Step_go env s)))) = results_yaml s"
  using assms
  by (simp_all add: Execute_go_def Execute_summary_def summary_message_def emit_def frame_def
      leaves_status_def leaves_results_def leaves_store_def Let_def)

lemma Report_go_done:
  assumes "status (plan_report pl) = Some ''done''"
    "report_frame (report_Step_go env)" "report_frame (report_actions env)"
  shows "Report_go env pl =
           report_actions env (report_emit (report_summary_message env pl)
             (report_emit (Info ''status'' ''done'') (report_Step_go env pl)))"
    and "status (plan_report (Report_go env pl)) = Some ''done''"
    and "plan_execute (Report_go env pl) = plan_execute pl"
  using assms
  by (simp_all add: Report_go_def Report_summary_def report_summary_message_def report_emit_def
      emit_def report_frame_def leaves_execute_def leaves_report_status_def Let_def)

text \<open>
  Claim C1. Let the inherited \<^verbatim>\<open>go\<close> and \<^verbatim>\<open>actions\<close> leave the status, the results
  and the results store alone. On an Execute step whose status is \<open>done\<close>, \<open>go\<close>
  returns normally with the results list, the results store and the status unchanged;
  it only prints the status and the summary between the two inherited calls, and a
  second \<open>go\<close> does the same with the same summary message. The Report step likewise:
  \<open>go\<close> on a report that is \<open>done\<close> leaves the Execute step (its results and its
  store) and the report's status unchanged, never calls the inherited save, and prints
  the same summary both times.
\<close>

theorem go_idempotent_once_done:
  assumes "status s = Some ''done''" "frame (Step_go env)" "frame (actions env)"
    and "status (plan_report pl) = Some ''done''"
    and "report_frame (report_Step_go renv)" "report_frame (report_actions renv)"
  shows "(\<exists>s1 s2. Execute_go env s = Inr s1 \<and> Execute_go env s1 = Inr s2 \<and>
           results s1 = results s \<and> results s2 = results s \<and>
           results_yaml s1 = results_yaml s \<and> results_yaml s2 = results_yaml s \<and>
           status s1 = Some ''done'' \<and> status s2 = Some ''done'' \<and>
           s1 = actions env (emit (summary_message env s) (emit (Info ''status'' ''done'') (Step_go env s))) \<and>
           s2 = actions env (emit (summary_message env s) (emit (Info ''status'' ''done'') (Step_go env s1)))) \<and>
         (plan_execute (Report_go renv pl) = plan_execute pl \<and>
          plan_execute (Report_go renv (Report_go renv pl)) = plan_execute pl \<and>
          status (plan_report (Report_go renv pl)) = Some ''done'' \<and>
          status (plan_report (Report_go renv (Report_go renv pl))) = Some ''done'' \<and>
          Report_go renv pl =
            report_actions renv (report_emit (report_summary_message renv pl)
              (report_emit (Info ''status'' ''done'') (report_Step_go renv pl))) \<and>
          Report_go renv (Report_go renv pl) =
            report_actions renv (report_emit (report_summary_message renv pl)
              (report_emit (Info ''status'' ''done'') (report_Step_go renv (Report_go renv pl)))))"
proof -
  let ?s1 = "actions env (emit (summary_message env s) (emit (Info ''status'' ''done'') (Step_go env s)))"
  have a: "Execute_go env s = Inr ?s1" "status ?s1 = Some ''done''" "results ?s1 = results s"
    "results_yaml ?s1 = results_yaml s"
    using Execute_go_done [OF assms(1-3)] by simp_all
  have m: "summary_message env ?s1 = summary_message env s"
    using a(3) by (simp add: summary_message_def)
  let ?s2 = "actions env (emit (summary_message env s) (emit (Info ''status'' ''done'') (Step_go env ?s1)))"
  have b: "Execute_go env ?s1 = Inr ?s2" "status ?s2 = Some ''done''" "results ?s2 = results s"
    "results_yaml ?s2 = results_yaml s"
    using Execute_go_done [OF a(2) assms(2,3)] a(3,4) m by simp_all
  have E: "\<exists>s1 s2. Execute_go env s = Inr s1 \<and> Execute_go env s1 = Inr s2 \<and>
           results s1 = results s \<and> results s2 = results s \<and>
           results_yaml s1 = results_yaml s \<and> results_yaml s2 = results_yaml s \<and>
           status s1 = Some ''done'' \<and> status s2 = Some ''done'' \<and>
           s1 = actions env (emit (summary_message env s) (emit (Info ''status'' ''done'') (Step_go env s))) \<and>
           s2 = actions env (emit (summary_message env s) (emit (Info ''status'' ''done'') (Step_go env s1)))"
    using a b by simp
  have c: "status (plan_report (Report_go renv pl)) = Some ''done''"
    "plan_execute (Report_go renv pl) = plan_execute pl"
    using Report_go_done [OF assms(4-6)] by simp_all
  have rm: "report_summary_message renv (Report_go renv pl) = report_summary_message renv pl"
    using c(2) by (simp add: report_summary_message_def)
  have R: "plan_execute (Report_go renv pl) = plan_execute pl \<and>
          plan_execute (Report_go renv (Report_go renv pl)) = plan_execute pl \<and>
          status (plan_report (Report_go renv pl)) = Some ''done'' \<and>
          status (plan_report (Report_go renv (Report_go renv pl))) = Some ''done'' \<and>
          Report_go renv pl =
            report_actions renv (report_emit (report_summary_message renv pl)
              (report_emit (Info ''status'' ''done'') (report_Step_go renv pl))) \<and>
          Report_go renv (Report_go renv pl) =
            report_actions renv (report_emit (report_summary_message renv pl)
              (report_emit (Info ''status'' ''done'') (report_Step_go renv (Report_go renv pl))))"
    using Report_go_done [OF assms(4-6)] Report_go_done [OF c(1) assms(5,6)] c rm by simp
  from E R show ?thesis by (rule conjI)
qed

theorem go_idempotent_once_done_witness:
  "\<exists>s1 s2. Execute_go env0 done_step = Inr s1 \<and> Execute_go env0 s1 = Inr s2 \<and>
     results s2 = [passed ''/smoke''] \<and>
     results_yaml s2 = Some [(''/smoke'', res_data (passed ''/smoke''))] \<and>
     status s2 = Some ''done'' \<and>
     out s1 = [Info ''execute'' [], Info ''status'' ''done'', Info ''summary'' ''1 test executed''] \<and>
     out s2 = out s1 @ out s1 \<and>
     plan_execute (Report_go renv0 (Report_go renv0 done_plan)) = done_step \<and>
     out (plan_report (Report_go renv0 done_plan)) =
       [Info ''report'' [], Info ''status'' ''done'', Info ''summary'' ''1 test passed'']"
proof -
  have a: "status done_step = Some ''done''" by (simp add: done_step_def)
  have b: "status (plan_report done_plan) = Some ''done''" by (simp add: done_plan_def)
  show ?thesis
    using go_idempotent_once_done [OF a frame_env0 b report_frame_renv0]
    by (auto simp: env0_def renv0_def done_step_def done_plan_def emit_def report_emit_def
        summary_message_def report_summary_message_def passed_def)
qed

subsection \<open>No guests\<close>

text \<open>
  Claim C4. Let the inherited \<^verbatim>\<open>go\<close> leave the status, the results and the results
  store alone. On a step that is not \<open>done\<close>, with no guests, \<open>go\<close> raises the
  ExecuteError "No guests available for execution."; the step it leaves behind has
  the status it had (so not \<open>done\<close>), the same results list and the same results store.
\<close>

theorem go_without_guests:
  assumes "status s \<noteq> Some ''done''" "guests env = []" "frame (Step_go env)"
  shows "Execute_go env s = Inl (ExecuteError ''No guests available for execution.'', Step_go env s) \<and>
         status (Step_go env s) = status s \<and>
         status (Step_go env s) \<noteq> Some ''done'' \<and>
         results (Step_go env s) = results s \<and>
         results_yaml (Step_go env s) = results_yaml s"
  using assms
  by (simp add: Execute_go_def frame_def leaves_status_def leaves_results_def leaves_store_def Let_def)

theorem go_without_guests_witness:
  "Execute_go (env0\<lparr>guests := []\<rparr>) fresh_step =
     Inl (ExecuteError ''No guests available for execution.'', emit (Info ''execute'' []) fresh_step) \<and>
   status (emit (Info ''execute'' []) fresh_step) = None \<and>
   results (emit (Info ''execute'' []) fresh_step) = [] \<and>
   results_yaml (emit (Info ''execute'' []) fresh_step) = None"
proof -
  have f: "frame (Step_go (env0\<lparr>guests := []\<rparr>))"
    by (simp add: frame_def leaves_status_def leaves_results_def leaves_store_def env0_def emit_def)
  have n: "status fresh_step \<noteq> Some ''done''" by (simp add: fresh_step_def)
  have g: "guests (env0\<lparr>guests := []\<rparr>) = []" by simp
  show ?thesis
    using go_without_guests [OF n g f] by (simp add: env0_def fresh_step_def emit_def)
qed

subsection \<open>Waking up\<close>

text \<open>
  Claim C8. When the step has more than one configuration record after the inherited
  \<^verbatim>\<open>wake\<close>, \<open>wake\<close> raises the SpecificationError and leaves the step as the
  inherited \<^verbatim>\<open>wake\<close> left it: no phase is added, the status is not set and nothing is
  saved. The outcome is the same whatever the plugin resolution and the plugin's wake
  are, so neither is reached.
\<close>

theorem wake_multiple_records:
  assumes "1 < length (data (Step_wake env s))"
  shows "Execute_wake env s =
           Inl (SpecificationError (''Multiple execute steps defined in '' @ [QUOTE] @ plan_name env
                  @ [QUOTE] @ ''.''), Step_wake env s) \<and>
         Execute_wake (env\<lparr>delegate := d, plugin_wake := w\<rparr>) s = Execute_wake env s"
  using assms by (simp add: Execute_wake_def Let_def)
theorem wake_multiple_records_witness:
  "Execute_wake env0 two_records =
     Inl (SpecificationError (''Multiple execute steps defined in '' @ [QUOTE] @ ''/plans/basic''
            @ [QUOTE] @ ''.''), two_records)"
proof -
  have l: "1 < length (data (Step_wake env0 two_records))"
    by (simp add: env0_def two_records_def)
  show ?thesis
    using wake_multiple_records [OF l] by (simp add: env0_def)
qed

subsection \<open>Mapping the old methods\<close>

lemma match_tmt: "match_old_method ''tmt'' = None"
  by (simp add: match_old_method_def NL_def)

lemma match_old_method_names:
  "match_old_method ''shell'' = Some ''shell''"
  "match_old_method ''shell.tmt'' = Some ''shell''"
  "match_old_method ''beakerlib'' = Some ''beakerlib''"
  "match_old_method ''beakerlib.tmt'' = Some ''beakerlib''"
  by (simp_all add: match_old_method_def NL_def)

lemma dict_set_lookup: "map_of (dict_set k v d) k = Some v"
  by (induction d) auto

lemma map_old_methods_matched:
  assumes "data s = d # ds" "map_of d ''how'' = Some (PyStr h)" "match_old_method h = Some fw"
  shows "\<exists>s'. map_old_methods s = Inr s' \<and> data s' = dict_set ''how'' (PyStr ''tmt'') d # ds \<and>
           framework s' = fw \<and> status s' = status s \<and> results s' = results s"
  using assms by (simp add: map_old_methods_def emit_def Let_def)

lemma map_old_methods_unmatched:
  assumes "data s = d # ds" "map_of d ''how'' = Some (PyStr h)" "match_old_method h = None"
  shows "map_old_methods s = Inr s"
  using assms by (simp add: map_old_methods_def)

lemma map_old_methods_normal:
  assumes "map_old_methods s = Inr s'"
  shows "\<exists>d ds h. data s' = d # ds \<and> map_of d ''how'' = Some (PyStr h) \<and> match_old_method h = None"
  using assms
  by (auto simp: map_old_methods_def emit_def Let_def dict_set_lookup match_tmt
      split: list.splits option.splits pyval.splits)

lemma map_old_methods_results:
  "map_old_methods s = Inr s' \<Longrightarrow> results s' = results s"
  by (auto simp: map_old_methods_def emit_def Let_def split: list.splits option.splits pyval.splits)

text \<open>
  Claim C9 as stated does not hold: the mapping does not run only when there is no earlier
  run state. Here the plan has a run, so \<^verbatim>\<open>__init__\<close> maps nothing, and the inherited
  \<^verbatim>\<open>wake\<close> restores the status \<open>done\<close> of an earlier run; \<open>wake\<close> still maps
  \<open>beakerlib\<close> to \<open>tmt\<close> and replaces the framework \<open>shell\<close> by \<open>beakerlib\<close>.
\<close>

theorem normalization_runs_on_resume:
  "my_run env_resume \<and>
   Execute_init env_resume fresh_step = Inr fresh_step \<and>
   status (Step_wake env_resume fresh_step) = Some ''done'' \<and>
   framework fresh_step = ''shell'' \<and>
   map_of (hd (data fresh_step)) ''how'' = Some (PyStr ''beakerlib'') \<and>
   (\<exists>s'. Execute_wake env_resume fresh_step = Inr s' \<and> status s' = Some ''done'' \<and>
      framework s' = ''beakerlib'' \<and> map_of (hd (data s')) ''how'' = Some (PyStr ''tmt''))"
  by (simp add: env_resume_def env0_def fresh_step_def Execute_init_def Execute_wake_def
      map_old_methods_def match_old_method_def NL_def emit_def DEFAULT_FRAMEWORK_def Let_def)

lemma match_none_not_old:
  "match_old_method h = None \<Longrightarrow>
   h \<notin> {''shell'', ''beakerlib'', ''shell.tmt'', ''beakerlib.tmt''}"
  using match_old_method_names by auto

text \<open>
  Claim C9, amended. \<^verbatim>\<open>__init__\<close> maps the old methods exactly when the plan has no
  run. The mapping turns each of \<open>shell\<close>, \<open>beakerlib\<close>, \<open>shell.tmt\<close> and
  \<open>beakerlib.tmt\<close> into \<open>tmt\<close> and stores the matched \<open>shell\<close> or
  \<open>beakerlib\<close> as the framework. \<open>wake\<close> raises on more than one configuration
  record without mapping anything; on every other call it maps, whatever the status and
  whether or not an earlier run left state behind, and before the plugin is resolved: an
  error of the mapping is the outcome, and otherwise the resolution gets the mapped step
  and a record whose method is none of the four old ones. Mapping again changes nothing,
  so a step whose method is already \<open>tmt\<close> keeps its method and its framework.
\<close>

theorem normalization_before_resolution:
  "(my_run env \<longrightarrow>
      Execute_init env base = Inr (base\<lparr>results := [], scripts := [], framework := DEFAULT_FRAMEWORK\<rparr>)) \<and>
   (\<not> my_run env \<longrightarrow>
      Execute_init env base =
        map_old_methods (base\<lparr>results := [], scripts := [], framework := DEFAULT_FRAMEWORK\<rparr>)) \<and>
   (data s = d # ds \<and> map_of d ''how'' = Some (PyStr h) \<and>
      h \<in> {''shell'', ''beakerlib'', ''shell.tmt'', ''beakerlib.tmt''} \<longrightarrow>
      (\<exists>s'. map_old_methods s = Inr s' \<and>
         data s' = dict_set ''how'' (PyStr ''tmt'') d # ds \<and>
         map_of (hd (data s')) ''how'' = Some (PyStr ''tmt'') \<and>
         framework s' = (if h \<in> {''shell'', ''shell.tmt''} then ''shell'' else ''beakerlib''))) \<and>
   (1 < length (data (Step_wake env s)) \<longrightarrow>
      Execute_wake env s =
        Inl (SpecificationError (''Multiple execute steps defined in '' @ [CHR 0x27] @ plan_name env
               @ [CHR 0x27] @ ''.''), Step_wake env s)) \<and>
   (length (data (Step_wake env s)) \<le> 1 \<and> map_old_methods (Step_wake env s) = Inl err \<longrightarrow>
      Execute_wake env s = Inl err) \<and>
   (length (data (Step_wake env s)) \<le> 1 \<and> map_old_methods (Step_wake env s) = Inr mapped \<longrightarrow>
      (\<exists>d2 ds2 h2.
         data mapped = d2 # ds2 \<and> map_of d2 ''how'' = Some (PyStr h2) \<and>
         h2 \<notin> {''shell'', ''beakerlib'', ''shell.tmt'', ''beakerlib.tmt''} \<and>
         Execute_wake env s =
           (case delegate env mapped d2 of
              Inl e \<Rightarrow> Inl (e, mapped)
            | Inr executor \<Rightarrow>
                Inr (if status mapped = Some ''done''
                     then emit (Debug ''Execute wake up complete (already done before).'')
                            (mapped\<lparr>phases := phases mapped @ [plugin_wake env executor]\<rparr>)
                     else Execute_save env
                            (mapped\<lparr>phases := phases mapped @ [plugin_wake env executor],
                                    status := Some ''todo''\<rparr>))))) \<and>
   (map_old_methods s = Inr again \<longrightarrow> map_old_methods again = Inr again)"
proof -
  have init: "(my_run env \<longrightarrow>
      Execute_init env base = Inr (base\<lparr>results := [], scripts := [], framework := DEFAULT_FRAMEWORK\<rparr>)) \<and>
   (\<not> my_run env \<longrightarrow>
      Execute_init env base =
        map_old_methods (base\<lparr>results := [], scripts := [], framework := DEFAULT_FRAMEWORK\<rparr>))"
    by (simp add: Execute_init_def Let_def)
  have legacy: "data s = d # ds \<and> map_of d ''how'' = Some (PyStr h) \<and>
      h \<in> {''shell'', ''beakerlib'', ''shell.tmt'', ''beakerlib.tmt''} \<longrightarrow>
      (\<exists>s'. map_old_methods s = Inr s' \<and>
         data s' = dict_set ''how'' (PyStr ''tmt'') d # ds \<and>
         map_of (hd (data s')) ''how'' = Some (PyStr ''tmt'') \<and>
         framework s' = (if h \<in> {''shell'', ''shell.tmt''} then ''shell'' else ''beakerlib''))"
  proof (intro impI, elim conjE)
    assume a: "data s = d # ds" "map_of d ''how'' = Some (PyStr h)"
      and h: "h \<in> {''shell'', ''beakerlib'', ''shell.tmt'', ''beakerlib.tmt''}"
    from h have m: "match_old_method h = Some (if h \<in> {''shell'', ''shell.tmt''} then ''shell'' else ''beakerlib'')"
      using match_old_method_names by auto
    from map_old_methods_matched [OF a m] show
      "\<exists>s'. map_old_methods s = Inr s' \<and>
         data s' = dict_set ''how'' (PyStr ''tmt'') d # ds \<and>
         map_of (hd (data s')) ''how'' = Some (PyStr ''tmt'') \<and>
         framework s' = (if h \<in> {''shell'', ''shell.tmt''} then ''shell'' else ''beakerlib'')"
      by (auto simp: dict_set_lookup)
  qed
  have many: "1 < length (data (Step_wake env s)) \<longrightarrow>
      Execute_wake env s =
        Inl (SpecificationError (''Multiple execute steps defined in '' @ [CHR 0x27] @ plan_name env
               @ [CHR 0x27] @ ''.''), Step_wake env s)"
    by (simp add: Execute_wake_def Let_def QUOTE_def)
  have failed: "length (data (Step_wake env s)) \<le> 1 \<and> map_old_methods (Step_wake env s) = Inl err \<longrightarrow>
      Execute_wake env s = Inl err"
    by (simp add: Execute_wake_def Let_def)
  have wake: "length (data (Step_wake env s)) \<le> 1 \<and> map_old_methods (Step_wake env s) = Inr mapped \<longrightarrow>
      (\<exists>d2 ds2 h2.
         data mapped = d2 # ds2 \<and> map_of d2 ''how'' = Some (PyStr h2) \<and>
         h2 \<notin> {''shell'', ''beakerlib'', ''shell.tmt'', ''beakerlib.tmt''} \<and>
         Execute_wake env s =
           (case delegate env mapped d2 of
              Inl e \<Rightarrow> Inl (e, mapped)
            | Inr executor \<Rightarrow>
                Inr (if status mapped = Some ''done''
                     then emit (Debug ''Execute wake up complete (already done before).'')
                            (mapped\<lparr>phases := phases mapped @ [plugin_wake env executor]\<rparr>)
                     else Execute_save env
                            (mapped\<lparr>phases := phases mapped @ [plugin_wake env executor],
                                    status := Some ''todo''\<rparr>))))"
  proof (intro impI, elim conjE)
    assume le: "length (data (Step_wake env s)) \<le> 1"
      and m: "map_old_methods (Step_wake env s) = Inr mapped"
    from map_old_methods_normal [OF m] obtain d2 ds2 h2 where
      n: "data mapped = d2 # ds2" "map_of d2 ''how'' = Some (PyStr h2)" "match_old_method h2 = None"
      by blast
    have w: "Execute_wake env s =
           (case delegate env mapped d2 of
              Inl e \<Rightarrow> Inl (e, mapped)
            | Inr executor \<Rightarrow>
                Inr (if status mapped = Some ''done''
                     then emit (Debug ''Execute wake up complete (already done before).'')
                            (mapped\<lparr>phases := phases mapped @ [plugin_wake env executor]\<rparr>)
                     else Execute_save env
                            (mapped\<lparr>phases := phases mapped @ [plugin_wake env executor],
                                    status := Some ''todo''\<rparr>)))"
      using le m n(1) by (simp add: Execute_wake_def Let_def split: sum.split)
    from n(1,2) match_none_not_old [OF n(3)] w
    show "\<exists>d2 ds2 h2.
         data mapped = d2 # ds2 \<and> map_of d2 ''how'' = Some (PyStr h2) \<and>
         h2 \<notin> {''shell'', ''beakerlib'', ''shell.tmt'', ''beakerlib.tmt''} \<and>
         Execute_wake env s =
           (case delegate env mapped d2 of
              Inl e \<Rightarrow> Inl (e, mapped)
            | Inr executor \<Rightarrow>
                Inr (if status mapped = Some ''done''
                     then emit (Debug ''Execute wake up complete (already done before).'')
                            (mapped\<lparr>phases := phases mapped @ [plugin_wake env executor]\<rparr>)
                     else Execute_save env
                            (mapped\<lparr>phases := phases mapped @ [plugin_wake env executor],
                                    status := Some ''todo''\<rparr>)))"
      by blast
  qed
  have idem: "map_old_methods s = Inr again \<longrightarrow> map_old_methods again = Inr again"
  proof
    assume m: "map_old_methods s = Inr again"
    from map_old_methods_normal [OF m] obtain d2 ds2 h2 where
      n: "data again = d2 # ds2" "map_of d2 ''how'' = Some (PyStr h2)" "match_old_method h2 = None"
      by blast
    then show "map_old_methods again = Inr again" by (rule map_old_methods_unmatched)
  qed
  from init legacy many failed wake idem show ?thesis by blast
qed

theorem normalization_before_resolution_witness:
  "(\<exists>woken. Execute_wake env0 fresh_step = Inr woken \<and>
      framework woken = ''beakerlib'' \<and>
      data woken = [[(''how'', PyStr ''tmt'')]] \<and>
      phases woken = [Plugin ''tmt'' True None [''beakerlib''] []] \<and>
      status woken = Some ''todo'' \<and>
      map_old_methods woken = Inr woken) \<and>
   Execute_wake env0 two_legacy_records =
     Inl (SpecificationError (''Multiple execute steps defined in '' @ [CHR 0x27] @ ''/plans/basic''
            @ [CHR 0x27] @ ''.''), two_legacy_records) \<and>
   data two_legacy_records = [[(''how'', PyStr ''beakerlib'')], [(''how'', PyStr ''tmt'')]] \<and>
   framework two_legacy_records = ''shell''"
proof -
  have sw: "Step_wake env0 = (\<lambda>s. s)" by (simp add: env0_simps)
  have a: "data fresh_step = [(''how'', PyStr ''beakerlib'')] # []"
    "map_of [(''how'', PyStr ''beakerlib'')] ''how'' = Some (PyStr ''beakerlib'')"
    "''beakerlib'' \<in> {''shell'', ''beakerlib'', ''shell.tmt'', ''beakerlib.tmt''}"
    by (simp_all add: fresh_step_def)
  note t1 = normalization_before_resolution [where env = env0 and base = fresh_step
      and s = fresh_step and d = "[(''how'', PyStr ''beakerlib'')]" and ds = "[]"
      and h = "''beakerlib''" and err = "(IndexError, fresh_step)" and mapped = fresh_step
      and again = fresh_step]
  from t1 a obtain mapped where m: "map_old_methods fresh_step = Inr mapped"
    "data mapped = dict_set ''how'' (PyStr ''tmt'') [(''how'', PyStr ''beakerlib'')] # []"
    "framework mapped = ''beakerlib''"
    by auto
  have ms: "status mapped = None" "phases mapped = []" "results mapped = []"
    "results_yaml mapped = None"
    using m(1)
    by (auto simp: map_old_methods_def fresh_step_def match_old_method_def NL_def emit_def Let_def)
  note t2 = normalization_before_resolution [where env = env0 and base = fresh_step
      and s = fresh_step and d = "[]" and ds = "[]" and h = "[]"
      and err = "(IndexError, fresh_step)" and mapped = mapped and again = mapped]
  have le: "length (data (Step_wake env0 fresh_step)) \<le> 1"
    by (simp add: sw fresh_step_def)
  have mw: "map_old_methods (Step_wake env0 fresh_step) = Inr mapped" using m(1) sw by simp
  from t2 le mw obtain d2 ds2 where w: "data mapped = d2 # ds2"
    "Execute_wake env0 fresh_step =
           (case delegate env0 mapped d2 of
              Inl e \<Rightarrow> Inl (e, mapped)
            | Inr executor \<Rightarrow>
                Inr (if status mapped = Some ''done''
                     then emit (Debug ''Execute wake up complete (already done before).'')
                            (mapped\<lparr>phases := phases mapped @ [plugin_wake env0 executor]\<rparr>)
                     else Execute_save env0
                            (mapped\<lparr>phases := phases mapped @ [plugin_wake env0 executor],
                                    status := Some ''todo''\<rparr>)))"
    by blast
  have d2: "d2 = [(''how'', PyStr ''tmt'')]" using w(1) m(2) by simp
  have dl: "delegate env0 mapped d2 = Inr (Plugin ''tmt'' True None [''beakerlib''] [])"
    unfolding d2 by (simp add: env0_def)
  let ?woken = "Execute_save env0 (mapped\<lparr>phases := phases mapped @ [Plugin ''tmt'' True None [''beakerlib''] []],
                                    status := Some ''todo''\<rparr>)"
  have wk: "Execute_wake env0 fresh_step = Inr ?woken"
    using w(2) dl ms(1) by (simp add: env0_simps)
  have f: "framework ?woken = ''beakerlib''" "data ?woken = [[(''how'', PyStr ''tmt'')]]"
    "phases ?woken = [Plugin ''tmt'' True None [''beakerlib''] []]" "status ?woken = Some ''todo''"
    using m(2,3) ms by (simp_all add: Execute_save_def env0_simps Let_def)
  have again: "map_old_methods ?woken = Inr ?woken"
    using f(2) by (simp add: map_old_methods_def match_old_method_def NL_def)
  note t3 = normalization_before_resolution [where env = env0 and base = fresh_step
      and s = two_legacy_records and d = "[]" and ds = "[]" and h = "[]"
      and err = "(IndexError, fresh_step)" and mapped = fresh_step and again = fresh_step]
  have two: "1 < length (data (Step_wake env0 two_legacy_records))"
    by (simp add: sw two_legacy_records_def)
  from t3 two have e: "Execute_wake env0 two_legacy_records =
     Inl (SpecificationError (''Multiple execute steps defined in '' @ [CHR 0x27] @ ''/plans/basic''
            @ [CHR 0x27] @ ''.''), two_legacy_records)"
    by (simp add: env0_simps)
  have g: "data two_legacy_records = [[(''how'', PyStr ''beakerlib'')], [(''how'', PyStr ''tmt'')]]"
    "framework two_legacy_records = ''shell''"
    by (simp_all add: two_legacy_records_def fresh_step_def)
  from wk f again e g show ?thesis by blast
qed

subsection \<open>Loading and saving the results\<close>

lemma Execute_init_results: "Execute_init env s0 = Inr s \<Longrightarrow> results s = []"
  by (auto simp: Execute_init_def Let_def dest!: map_old_methods_results split: if_splits)

text \<open>
  Claim C10. Let the inherited \<^verbatim>\<open>load\<close> leave the results alone. When there is no
  results file to read, \<open>load\<close> raises nothing: it prints a debug message and returns
  normally with the results list it had, which is empty for a step that
  \<^verbatim>\<open>__init__\<close> has just set up.
\<close>

theorem load_without_results_file:
  assumes "results_yaml (Step_load env s) = None" "leaves_results (Step_load env)"
  shows "Execute_load env s = Inr (emit (Debug ''Test results not found.'') (Step_load env s)) \<and>
         results (emit (Debug ''Test results not found.'') (Step_load env s)) = results s \<and>
         (Execute_init env s0 = Inr s \<longrightarrow>
            results (emit (Debug ''Test results not found.'') (Step_load env s)) = [])"
  using assms Execute_init_results [of env s0 s]
  by (auto simp: Execute_load_def read_results_def emit_def leaves_results_def Let_def)

theorem load_without_results_file_witness:
  "Execute_init env_no_run fresh_step \<noteq> Inr fresh_step \<and>
   (\<exists>s s'. Execute_init env_no_run fresh_step = Inr s \<and> Execute_load env_no_run s = Inr s' \<and>
      results s' = [] \<and> out s' = out s @ [Debug ''Test results not found.''])"
proof -
  obtain s where i: "Execute_init env_no_run fresh_step = Inr s" "results_yaml s = None"
    "s \<noteq> fresh_step"
    by (simp add: Execute_init_def env_no_run_def env0_def fresh_step_def map_old_methods_def
        match_old_method_def NL_def emit_def Let_def DEFAULT_FRAMEWORK_def)
  have l: "Step_load env_no_run = (\<lambda>s. s)" by (simp add: env_no_run_def env0_def)
  have a: "results_yaml (Step_load env_no_run s) = None" using i(2) l by simp
  have b: "leaves_results (Step_load env_no_run)" using l by (simp add: leaves_results_def)
  from load_without_results_file [OF a b, of fresh_step] i l show ?thesis
    by (auto simp: emit_def)
qed

lemma dict_set_fresh: "k \<notin> fst ` set d \<Longrightarrow> dict_set k v d = d @ [(k, v)]"
  by (induction d) auto

lemma foldl_dict_set_distinct:
  "distinct (map fst (d @ ps)) \<Longrightarrow> foldl (\<lambda>d (k, v). dict_set k v d) d ps = d @ ps"
proof (induction ps arbitrary: d)
  case Nil
  then show ?case by simp
next
  case (Cons p ps)
  obtain k v where p: "p = (k, v)" by (cases p)
  have "k \<notin> fst ` set d" using Cons.prems p by auto
  then have "dict_set k v d = d @ [(k, v)]" by (rule dict_set_fresh)
  moreover have "distinct (map fst ((d @ [(k, v)]) @ ps))" using Cons.prems p by simp
  ultimately show ?case using Cons.IH [of "d @ [(k, v)]"] p by simp
qed

lemma dict_of_distinct: "distinct (map fst ps) \<Longrightarrow> dict_of ps = ps"
  using foldl_dict_set_distinct [of "[]" ps] by (simp add: dict_of_def)

text \<open>
  Claim C5. Let the inherited \<^verbatim>\<open>save\<close> leave the results alone and the inherited
  \<^verbatim>\<open>load\<close> leave the results file alone. When the names of the step's results are
  distinct, \<open>save\<close> followed by \<open>load\<close> (on this step or on any step that finds the
  saved file, as a later run does) gives as many results as were saved, in the same
  order, each with the name and the data (result, log, duration and note) of the one
  saved.
\<close>

theorem save_load_roundtrip:
  assumes "distinct (map res_name (results s))"
    and "leaves_results (Step_save env)" "leaves_store (Step_load env)"
    and "results_yaml later = results_yaml (Execute_save env s)"
  shows "\<exists>s'. Execute_load env later = Inr s' \<and>
           length (results s') = length (results s) \<and>
           map res_name (results s') = map res_name (results s) \<and>
           map res_data (results s') = map res_data (results s) \<and>
           results s' = map (\<lambda>r. Result (res_data r) (res_name r) None) (results s)"
proof -
  let ?ps = "map (\<lambda>r. (res_name r, export r)) (results s)"
  have "map fst ?ps = map res_name (results s)" by (simp add: comp_def)
  then have d: "dict_of ?ps = ?ps" using assms(1) dict_of_distinct by metis
  have sv: "results_yaml (Step_load env later) = Some ?ps"
    using assms(2,3,4) d by (simp add: Execute_save_def leaves_results_def leaves_store_def Let_def)
  show ?thesis
    using sv
    by (simp add: Execute_load_def read_results_def Let_def comp_def export_def)
qed

theorem save_load_roundtrip_witness:
  "\<exists>s'. Execute_load env0 (fresh_step\<lparr>results_yaml := results_yaml (Execute_save env0 run_step)\<rparr>) = Inr s' \<and>
     map res_name (results s') = [''/smoke'', ''/slow''] \<and>
     map (result \<circ> res_data) (results s') = [''pass'', ''error''] \<and>
     map (data_note \<circ> res_data) (results s') = [None, Some ''timeout'']"
proof -
  have a: "distinct (map res_name (results run_step))"
    by (simp add: run_step_def passed_def timed_out_def)
  have b: "leaves_results (Step_save env0)" by (simp add: leaves_results_def env0_def)
  have c: "leaves_store (Step_load env0)" by (simp add: leaves_store_def env0_def)
  have d: "results_yaml (fresh_step\<lparr>results_yaml := results_yaml (Execute_save env0 run_step)\<rparr>)
             = results_yaml (Execute_save env0 run_step)" by simp
  show ?thesis
    using save_load_roundtrip [OF a b c d]
    by (auto simp: run_step_def passed_def timed_out_def)
qed

subsection \<open>Guests and phases\<close>


lemma phase_after_Cons:
  "phase_after env p (g # gs) =
     phase_after env (if enabled_on_guest env p g then phase_go env p g else p) gs"
  by (simp add: phase_after_def)




lemma phase_after_enabled:
  "enabled_stable env \<Longrightarrow>
   enabled_on_guest env (phase_after env p gs) g = enabled_on_guest env p g"
  by (induction gs arbitrary: p) (auto simp: phase_after_Cons phase_after_def enabled_stable_def)







subsection \<open>Required packages\<close>

lemma set_set_update: "set (set_update xs new) = set xs \<union> set new"
  unfolding set_update_def by (induction new arbitrary: xs) (auto simp: set_add_def)

lemma distinct_set_update: "distinct xs \<Longrightarrow> distinct (set_update xs new)"
  unfolding set_update_def by (induction new arbitrary: xs) (auto simp: set_add_def)

lemma set_collect:
  "set (foldl (\<lambda>requires plugin. set_update requires (f plugin)) acc ps) =
     set acc \<union> (\<Union>p\<in>set ps. set (f p))"
  by (induction ps arbitrary: acc) (auto simp: set_set_update)

lemma distinct_collect:
  "distinct acc \<Longrightarrow> distinct (foldl (\<lambda>requires plugin. set_update requires (f plugin)) acc ps)"
  by (induction ps arbitrary: acc) (auto simp: distinct_set_update)

text \<open>
  Claim C7. \<open>requires\<close> of the Execute step and of the Report step return a list without
  duplicates whose elements are exactly the packages required by some execute plugin
  (report plugin) among the phases. Two steps with the same phases in any order, with
  any overlap between the phases' lists, require the same set of packages.
\<close>

theorem requires_union:
  "distinct (Execute_requires env s) \<and>
   set (Execute_requires env s) =
     (\<Union>p\<in>{p \<in> set (phases s). is_ExecutePlugin env p}. set (phase_requires env p)) \<and>
   distinct (Report_requires renv pl) \<and>
   set (Report_requires renv pl) =
     (\<Union>p\<in>{p \<in> set (phases (plan_report pl)). is_ReportPlugin renv p}. set (report_phase_requires renv p)) \<and>
   (set (phases s2) = set (phases s) \<longrightarrow>
      set (Execute_requires env s2) = set (Execute_requires env s)) \<and>
   (set (phases (plan_report pl2)) = set (phases (plan_report pl)) \<longrightarrow>
      set (Report_requires renv pl2) = set (Report_requires renv pl))"
  by (simp add: Execute_requires_def Report_requires_def set_collect distinct_collect)

theorem requires_union_witness:
  "set (Execute_requires env0 swapped_step) = set (Execute_requires env0 two_phase_step) \<and>
   Execute_requires env0 two_phase_step = [''beakerlib'']"
proof -
  have a: "set (phases swapped_step) = set (phases two_phase_step)"
    by (simp add: swapped_step_def)
  note u = requires_union [of env0 two_phase_step renv0 done_plan swapped_step done_plan]
  from u have "set (phases swapped_step) = set (phases two_phase_step) \<longrightarrow>
      set (Execute_requires env0 swapped_step) = set (Execute_requires env0 two_phase_step)"
    by (elim conjE)
  with a have b: "set (Execute_requires env0 swapped_step) = set (Execute_requires env0 two_phase_step)"
    by (rule rev_mp)
  have c: "Execute_requires env0 two_phase_step = [''beakerlib'']"
    by (simp add: Execute_requires_def env0_simps two_phase_step_def set_update_def set_add_def)
  from b c show ?thesis by (rule conjI)
qed

end
